theory Spec2Isabelle
  imports Complex_Main "HOL-Library.Char_ord" "HOL-Library.List_Lexorder"
begin

section \<open>Numbers, rounding and sorting of the JavaScript runtime\<close>

text \<open>
  A JavaScript \<^verbatim>\<open>number\<close> is modelled as an exact \<^typ>\<open>real\<close>: the arithmetic of the
  source is carried out without rounding error, and the rounding the source asks for
  explicitly (\<^verbatim>\<open>toFixed\<close>, \<^verbatim>\<open>Math.round\<close>) is written out. Where the source divides
  without a guard, the quotient is a \<open>jsnum\<close>, which keeps \<^verbatim>\<open>NaN\<close> and the infinities
  apart from the finite values; there is no negative zero. The rounding error, the
  absorption and the overflow of double-precision arithmetic are not part of the model:
  where a result depends on them, the statements below are restricted to inputs on which
  the exact arithmetic and the double-precision arithmetic agree.
\<close>

datatype jsnum = Finite real | Infinity | NegInfinity | NaN

definition js_div :: "real \<Rightarrow> real \<Rightarrow> jsnum" where
  "js_div a b =
     (if b \<noteq> 0 then Finite (a / b)
      else if a > 0 then Infinity
      else if a < 0 then NegInfinity
      else NaN)"

fun js_gt :: "jsnum \<Rightarrow> real \<Rightarrow> bool" where
  "js_gt (Finite x) c = (x > c)"
| "js_gt Infinity c = True"
| "js_gt NegInfinity c = False"
| "js_gt NaN c = False"

fun js_times :: "jsnum \<Rightarrow> real \<Rightarrow> jsnum" where
  "js_times (Finite x) c = Finite (x * c)"
| "js_times Infinity c = (if c > 0 then Infinity else if c < 0 then NegInfinity else NaN)"
| "js_times NegInfinity c = (if c > 0 then NegInfinity else if c < 0 then Infinity else NaN)"
| "js_times NaN c = NaN"

fun js_abs :: "jsnum \<Rightarrow> jsnum" where
  "js_abs (Finite x) = Finite \<bar>x\<bar>"
| "js_abs Infinity = Infinity"
| "js_abs NegInfinity = Infinity"
| "js_abs NaN = NaN"

text \<open>\<^verbatim>\<open>v || 0\<close> on a number: \<^verbatim>\<open>NaN\<close> and zero are falsy.\<close>

fun js_or_zero :: "jsnum \<Rightarrow> jsnum" where
  "js_or_zero NaN = Finite 0"
| "js_or_zero v = v"

text \<open>
  \<^verbatim>\<open>parseFloat(x.toFixed(d))\<close>: the sign is split off, then the integer \<open>n\<close> with
  \<open>n / 10^d\<close> nearest to the magnitude is taken, the larger one on a tie.
\<close>

definition toFixed :: "nat \<Rightarrow> real \<Rightarrow> real" where
  "toFixed d x =
     (if x < 0 then - (of_int \<lfloor>(- x) * 10 ^ d + 1 / 2\<rfloor> / 10 ^ d)
      else of_int \<lfloor>x * 10 ^ d + 1 / 2\<rfloor> / 10 ^ d)"

text \<open>\<^verbatim>\<open>Math.round\<close>: the nearest integer, a tie going towards plus infinity.\<close>

definition Math_round :: "real \<Rightarrow> real" where
  "Math_round x = of_int \<lfloor>x + 1 / 2\<rfloor>"

text \<open>
  \<^verbatim>\<open>Array.prototype.sort\<close> with a comparator is stable; it is modelled as a stable
  insertion sort, an element staying before the later elements it does not exceed.
\<close>

fun js_insert :: "('a \<Rightarrow> 'a \<Rightarrow> real) \<Rightarrow> 'a \<Rightarrow> 'a list \<Rightarrow> 'a list" where
  "js_insert cmp x [] = [x]"
| "js_insert cmp x (y # ys) =
     (if cmp x y \<le> 0 then x # y # ys else y # js_insert cmp x ys)"

definition js_sort :: "('a \<Rightarrow> 'a \<Rightarrow> real) \<Rightarrow> 'a list \<Rightarrow> 'a list" where
  "js_sort cmp xs = foldr (js_insert cmp) xs []"

text \<open>
  \<^verbatim>\<open>a.localeCompare(b)\<close>, modelled by the lexicographic order of the characters, with
  which it agrees on the digit-and-hyphen keys (\<^verbatim>\<open>YYYY-MM-DD\<close>, \<^verbatim>\<open>YYYY-MM\<close>) that the
  aggregator sorts.
\<close>

definition localeCompare :: "string \<Rightarrow> string \<Rightarrow> real" where
  "localeCompare a b = (if a < b then - 1 else if a = b then 0 else 1)"

definition padStart :: "nat \<Rightarrow> char \<Rightarrow> string \<Rightarrow> string" where
  "padStart n c s = replicate (n - length s) c @ s"

text \<open>
  A \<^verbatim>\<open>Map\<close> keeps its keys in insertion order: an association list in which \<open>map_set\<close>
  overwrites the entry of a key already present and appends a new key at the end.
\<close>

fun map_set :: "('k \<times> 'v) list \<Rightarrow> 'k \<Rightarrow> 'v \<Rightarrow> ('k \<times> 'v) list" where
  "map_set [] k v = [(k, v)]"
| "map_set ((k', v') # m) k v =
     (if k' = k then (k, v) # m else (k', v') # map_set m k v)"

text \<open>
  What the source takes from the runtime is a parameter of the model: the calendar and
  the time zone behind a \<^verbatim>\<open>Date\<close> (a time value in milliseconds), the parsing of a
  date string, and the text a number or a date is printed as.
\<close>

record js_runtime =
  rt_toISODate :: "int \<Rightarrow> string"
  rt_getFullYear :: "int \<Rightarrow> int"
  rt_getMonth :: "int \<Rightarrow> nat"
  rt_getTime :: "string \<Rightarrow> real"
  rt_addDays :: "string \<Rightarrow> int \<Rightarrow> string"
  rt_weekdayLong :: "string \<Rightarrow> string"
  rt_monthDay :: "string \<Rightarrow> string"
  rt_String :: "real \<Rightarrow> string"
  rt_toFixed :: "nat \<Rightarrow> jsnum \<Rightarrow> string"

section \<open>The data model (types/index.ts)\<close>

record transaction =
  tx_id :: string
  tx_businessId :: string
  tx_date :: int
  tx_productName :: string
  tx_category :: "string option"
  tx_quantity :: real
  tx_revenue :: real
  tx_cost :: real
  tx_createdAt :: int
  tx_updatedAt :: int

record daily_revenue =
  dr_date :: string
  dr_revenue :: real
  dr_cost :: real
  dr_profit :: real

record monthly_revenue =
  mr_month :: string
  mr_revenue :: real
  mr_cost :: real
  mr_profit :: real
  mr_profitMargin :: real

record product_performance =
  pp_productName :: string
  pp_totalRevenue :: real
  pp_totalCost :: real
  pp_totalProfit :: real
  pp_profitMargin :: real
  pp_quantity :: real
  pp_transactionCount :: nat

record totals =
  t_totalRevenue :: real
  t_totalCost :: real
  t_totalProfit :: real
  t_profitMargin :: real

record revenue_concentration =
  rc_topProductShare :: real
  rc_top3ProductShare :: real
  rc_diversificationScore :: real

record business_health_metrics =
  bh_score :: real
  bh_profitabilityScore :: real
  bh_growthScore :: real
  bh_stabilityScore :: real
  bh_diversificationScore :: real

section \<open>The aggregator (core/analytics.ts)\<close>

record money_acc =
  a_revenue :: real
  a_cost :: real

record product_acc =
  p_revenue :: real
  p_cost :: real
  p_quantity :: real
  p_count :: nat

definition dailyStep :: "js_runtime \<Rightarrow> (string \<times> money_acc) list \<Rightarrow> transaction \<Rightarrow> (string \<times> money_acc) list" where
  "dailyStep rt dailyMap tx =
     (let dateKey = rt_toISODate rt (tx_date tx);
          existing = (case map_of dailyMap dateKey of
                        Some e \<Rightarrow> e
                      | None \<Rightarrow> \<lparr>a_revenue = 0, a_cost = 0\<rparr>)
      in map_set dailyMap dateKey
           \<lparr>a_revenue = a_revenue existing + tx_revenue tx,
            a_cost = a_cost existing + tx_cost tx\<rparr>)"

definition dailyEntry :: "string \<times> money_acc \<Rightarrow> daily_revenue" where
  "dailyEntry e =
     (case e of (date, data) \<Rightarrow>
        \<lparr>dr_date = date,
         dr_revenue = toFixed 2 (a_revenue data),
         dr_cost = toFixed 2 (a_cost data),
         dr_profit = toFixed 2 (a_revenue data - a_cost data)\<rparr>)"

definition calculateDailyRevenue :: "js_runtime \<Rightarrow> transaction list \<Rightarrow> daily_revenue list" where
  "calculateDailyRevenue rt transactions =
     (let dailyMap = foldl (dailyStep rt) [] transactions
      in js_sort (\<lambda>a b. localeCompare (dr_date a) (dr_date b)) (map dailyEntry dailyMap))"

definition monthKey :: "js_runtime \<Rightarrow> int \<Rightarrow> string" where
  "monthKey rt date =
     rt_String rt (of_int (rt_getFullYear rt date)) @ ''-'' @
     padStart 2 (CHR ''0'') (rt_String rt (of_nat (rt_getMonth rt date + 1)))"

definition monthlyStep :: "js_runtime \<Rightarrow> (string \<times> money_acc) list \<Rightarrow> transaction \<Rightarrow> (string \<times> money_acc) list" where
  "monthlyStep rt monthlyMap tx =
     (let k = monthKey rt (tx_date tx);
          existing = (case map_of monthlyMap k of
                        Some e \<Rightarrow> e
                      | None \<Rightarrow> \<lparr>a_revenue = 0, a_cost = 0\<rparr>)
      in map_set monthlyMap k
           \<lparr>a_revenue = a_revenue existing + tx_revenue tx,
            a_cost = a_cost existing + tx_cost tx\<rparr>)"

definition monthlyEntry :: "string \<times> money_acc \<Rightarrow> monthly_revenue" where
  "monthlyEntry e =
     (case e of (month, data) \<Rightarrow>
        (let profit = a_revenue data - a_cost data;
             profitMargin = (if a_revenue data > 0 then profit / a_revenue data else 0)
         in \<lparr>mr_month = month,
             mr_revenue = toFixed 2 (a_revenue data),
             mr_cost = toFixed 2 (a_cost data),
             mr_profit = toFixed 2 profit,
             mr_profitMargin = toFixed 4 profitMargin\<rparr>))"

definition calculateMonthlyRevenue :: "js_runtime \<Rightarrow> transaction list \<Rightarrow> monthly_revenue list" where
  "calculateMonthlyRevenue rt transactions =
     (let monthlyMap = foldl (monthlyStep rt) [] transactions
      in js_sort (\<lambda>a b. localeCompare (mr_month a) (mr_month b)) (map monthlyEntry monthlyMap))"

definition productStep :: "(string \<times> product_acc) list \<Rightarrow> transaction \<Rightarrow> (string \<times> product_acc) list" where
  "productStep productMap tx =
     (let existing = (case map_of productMap (tx_productName tx) of
                        Some e \<Rightarrow> e
                      | None \<Rightarrow> \<lparr>p_revenue = 0, p_cost = 0, p_quantity = 0, p_count = 0\<rparr>)
      in map_set productMap (tx_productName tx)
           \<lparr>p_revenue = p_revenue existing + tx_revenue tx,
            p_cost = p_cost existing + tx_cost tx,
            p_quantity = p_quantity existing + tx_quantity tx,
            p_count = p_count existing + 1\<rparr>)"

definition productEntry :: "string \<times> product_acc \<Rightarrow> product_performance" where
  "productEntry e =
     (case e of (productName, data) \<Rightarrow>
        (let profit = p_revenue data - p_cost data;
             profitMargin = (if p_revenue data > 0 then profit / p_revenue data else 0)
         in \<lparr>pp_productName = productName,
             pp_totalRevenue = toFixed 2 (p_revenue data),
             pp_totalCost = toFixed 2 (p_cost data),
             pp_totalProfit = toFixed 2 profit,
             pp_profitMargin = toFixed 4 profitMargin,
             pp_quantity = toFixed 2 (p_quantity data),
             pp_transactionCount = p_count data\<rparr>))"

definition calculateProductPerformance :: "transaction list \<Rightarrow> product_performance list" where
  "calculateProductPerformance transactions =
     (let productMap = foldl productStep [] transactions
      in js_sort (\<lambda>a b. pp_totalRevenue b - pp_totalRevenue a) (map productEntry productMap))"

definition getTopProducts :: "product_performance list \<Rightarrow> nat \<Rightarrow> product_performance list" where
  "getTopProducts products count = take count products"

definition getBottomProducts :: "product_performance list \<Rightarrow> nat \<Rightarrow> product_performance list" where
  "getBottomProducts products count =
     take count (js_sort (\<lambda>a b. pp_totalProfit a - pp_totalProfit b) products)"

definition calculateTotals :: "transaction list \<Rightarrow> totals" where
  "calculateTotals transactions =
     (let tot = foldl (\<lambda>acc tx. \<lparr>a_revenue = a_revenue acc + tx_revenue tx,
                                   a_cost = a_cost acc + tx_cost tx\<rparr>)
                  \<lparr>a_revenue = 0, a_cost = 0\<rparr> transactions;
          profit = a_revenue tot - a_cost tot;
          profitMargin = (if a_revenue tot > 0 then profit / a_revenue tot else 0)
      in \<lparr>t_totalRevenue = toFixed 2 (a_revenue tot),
          t_totalCost = toFixed 2 (a_cost tot),
          t_totalProfit = toFixed 2 profit,
          t_profitMargin = toFixed 4 profitMargin\<rparr>)"

text \<open>
  \<^verbatim>\<open>products[0]?.totalRevenue / totalRevenue || 0\<close>: reached only with a non-zero total,
  hence with a first product; the quotient is finite there.
\<close>

definition calculateRevenueConcentration :: "product_performance list \<Rightarrow> revenue_concentration" where
  "calculateRevenueConcentration products =
     (let totalRevenue = foldl (\<lambda>s p. s + pp_totalRevenue p) 0 products
      in if totalRevenue = 0
         then \<lparr>rc_topProductShare = 0, rc_top3ProductShare = 0, rc_diversificationScore = 1\<rparr>
         else
           (let topProductShare = (case products of
                                     [] \<Rightarrow> 0
                                   | p # _ \<Rightarrow> pp_totalRevenue p / totalRevenue);
                top3ProductShare =
                  foldl (\<lambda>s p. s + pp_totalRevenue p) 0 (take 3 products) / totalRevenue;
                diversificationScore = 1 - top3ProductShare
            in \<lparr>rc_topProductShare = toFixed 4 topProductShare,
                rc_top3ProductShare = toFixed 4 top3ProductShare,
                rc_diversificationScore = toFixed 4 diversificationScore\<rparr>))"

definition calculateGrowthRate :: "monthly_revenue list \<Rightarrow> real" where
  "calculateGrowthRate monthlyRevenue =
     (if length monthlyRevenue < 2 then 0
      else
        (let sorted = js_sort (\<lambda>a b. localeCompare (mr_month a) (mr_month b)) monthlyRevenue;
             firstMonth = hd sorted;
             lastMonth = last sorted
         in if mr_revenue firstMonth = 0 then 0
            else toFixed 4 ((mr_revenue lastMonth - mr_revenue firstMonth) / mr_revenue firstMonth)))"

section \<open>The health scorer (core/analytics.ts)\<close>

definition calculateBusinessHealth ::
  "totals \<Rightarrow> product_performance list \<Rightarrow> monthly_revenue list \<Rightarrow> real \<Rightarrow> business_health_metrics" where
  "calculateBusinessHealth tot products monthlyRevenue anomalyCount =
     (let profitMargin = t_profitMargin tot;
          growthRate = calculateGrowthRate monthlyRevenue;
          diversificationScore = rc_diversificationScore (calculateRevenueConcentration products);
          profitabilityScore = min (profitMargin * 100 * 3) 100;
          growthScore = min (max ((growthRate + 0.5) * 100) 0) 100;
          stabilityScore = max (100 - anomalyCount * 10) 0;
          diversificationScoreNormalized = diversificationScore * 100;
          score = profitabilityScore * 0.3 + growthScore * 0.25 + stabilityScore * 0.25 +
                  diversificationScoreNormalized * 0.2
      in \<lparr>bh_score = Math_round (min (max score 0) 100),
          bh_profitabilityScore = Math_round profitabilityScore,
          bh_growthScore = Math_round growthScore,
          bh_stabilityScore = Math_round stabilityScore,
          bh_diversificationScore = Math_round diversificationScoreNormalized\<rparr>)"

section \<open>The forecaster (core/forecasting.ts)\<close>

record point =
  pt_x :: real
  pt_y :: real

record regression =
  rg_slope :: real
  rg_intercept :: real
  rg_r2 :: real

record confidence =
  cf_lower :: real
  cf_upper :: real

record forecast_point =
  fp_date :: string
  fp_predicted :: real
  fp_confidence :: "confidence option"

text \<open>
  The trend is kept as the string the source returns: \<open>prepareMetricsForInsight\<close> copies
  it, untyped, into a field of another string union.
\<close>

record forecast_result =
  fr_forecast :: "forecast_point list"
  fr_slope :: real
  fr_intercept :: real
  fr_r2 :: real
  fr_trend :: string

definition calculateLinearRegression :: "point list \<Rightarrow> regression" where
  "calculateLinearRegression data =
     (let n = length data
      in if n = 0 then \<lparr>rg_slope = 0, rg_intercept = 0, rg_r2 = 0\<rparr>
         else
           (let meanX = foldl (\<lambda>sum point. sum + pt_x point) 0 data / real n;
                meanY = foldl (\<lambda>sum point. sum + pt_y point) 0 data / real n;
                (numerator, denominator) =
                  foldl (\<lambda>(num, den) point.
                           (let xDiff = pt_x point - meanX;
                                yDiff = pt_y point - meanY
                            in (num + xDiff * yDiff, den + xDiff * xDiff)))
                    (0, 0) data;
                slope = (if denominator \<noteq> 0 then numerator / denominator else 0);
                intercept = meanY - slope * meanX;
                (ssRes, ssTot) =
                  foldl (\<lambda>(res, tot) point.
                           (let predicted = slope * pt_x point + intercept
                            in (res + (pt_y point - predicted) ^ 2,
                                tot + (pt_y point - meanY) ^ 2)))
                    (0, 0) data;
                r2 = (if ssTot \<noteq> 0 then 1 - ssRes / ssTot else 0)
            in \<lparr>rg_slope = toFixed 4 slope,
                rg_intercept = toFixed 4 intercept,
                rg_r2 = toFixed 4 (max 0 r2)\<rparr>))"

text \<open>
  The fitted coefficient of determination: the local \<^verbatim>\<open>r2\<close> of
  \<open>calculateLinearRegression\<close>, computed as there, before \<^verbatim>\<open>Math.max(0, r2).toFixed(4)\<close>
  rounds it for the result.
\<close>

definition fittedR2 :: "point list \<Rightarrow> real" where
  "fittedR2 data =
     (let n = length data;
          meanX = foldl (\<lambda>sum point. sum + pt_x point) 0 data / real n;
          meanY = foldl (\<lambda>sum point. sum + pt_y point) 0 data / real n;
          (numerator, denominator) =
            foldl (\<lambda>(num, den) point.
                     (let xDiff = pt_x point - meanX;
                          yDiff = pt_y point - meanY
                      in (num + xDiff * yDiff, den + xDiff * xDiff)))
              (0, 0) data;
          slope = (if denominator \<noteq> 0 then numerator / denominator else 0);
          intercept = meanY - slope * meanX;
          (ssRes, ssTot) =
            foldl (\<lambda>(res, tot) point.
                     (let predicted = slope * pt_x point + intercept
                      in (res + (pt_y point - predicted) ^ 2,
                          tot + (pt_y point - meanY) ^ 2)))
              (0, 0) data
      in if ssTot \<noteq> 0 then 1 - ssRes / ssTot else 0)"

definition calculateStandardError :: "point list \<Rightarrow> real \<Rightarrow> real \<Rightarrow> real" where
  "calculateStandardError data slope intercept =
     (let n = length data
      in if n \<le> 2 then 0
         else
           (let sumSquaredErrors =
                  foldl (\<lambda>s point.
                           (let predicted = slope * pt_x point + intercept
                            in s + (pt_y point - predicted) ^ 2))
                    0 data;
                variance = sumSquaredErrors / (real n - 2)
            in sqrt variance))"

definition determineTrend :: "real \<Rightarrow> real \<Rightarrow> string" where
  "determineTrend slope r2 =
     (if r2 < 0.3 then ''stable''
      else
        (let threshold = 0.5
         in if slope > threshold then ''increasing''
            else if slope < - threshold then ''decreasing''
            else ''stable''))"

text \<open>
  The dates of a daily series are taken to parse (the aggregator writes \<^verbatim>\<open>YYYY-MM-DD\<close>),
  so that the comparator of the sort is a difference of time values.
\<close>

definition sortByDate :: "js_runtime \<Rightarrow> daily_revenue list \<Rightarrow> daily_revenue list" where
  "sortByDate rt dailyRevenue =
     js_sort (\<lambda>a b. rt_getTime rt (dr_date a) - rt_getTime rt (dr_date b)) dailyRevenue"

definition regressionDataOf :: "daily_revenue list \<Rightarrow> point list" where
  "regressionDataOf sortedData =
     map (\<lambda>(index, day). \<lparr>pt_x = real index, pt_y = dr_revenue day\<rparr>) (enumerate 0 sortedData)"

text \<open>
  The loop over \<^verbatim>\<open>i = 1 .. daysToForecast\<close> is the map over that interval of integers.
\<close>

definition forecastRevenue :: "js_runtime \<Rightarrow> daily_revenue list \<Rightarrow> int \<Rightarrow> forecast_result" where
  "forecastRevenue rt dailyRevenue daysToForecast =
     (if length dailyRevenue = 0
      then \<lparr>fr_forecast = [], fr_slope = 0, fr_intercept = 0, fr_r2 = 0, fr_trend = ''stable''\<rparr>
      else
        (let sortedData = sortByDate rt dailyRevenue;
             regressionData = regressionDataOf sortedData;
             reg = calculateLinearRegression regressionData;
             slope = rg_slope reg;
             intercept = rg_intercept reg;
             r2 = rg_r2 reg;
             standardError = calculateStandardError regressionData slope intercept;
             lastDate = dr_date (last sortedData);
             forecast =
               map (\<lambda>i.
                      (let x = real (length sortedData) + of_int i - 1;
                           predicted = slope * x + intercept;
                           marginOfError = 1.96 * standardError
                       in \<lparr>fp_date = rt_addDays rt lastDate i,
                           fp_predicted = max 0 (toFixed 2 predicted),
                           fp_confidence =
                             Some \<lparr>cf_lower = max 0 (toFixed 2 (predicted - marginOfError)),
                                   cf_upper = toFixed 2 (predicted + marginOfError)\<rparr>\<rparr>))
                 [1..daysToForecast];
             trend = determineTrend slope r2
         in \<lparr>fr_forecast = forecast, fr_slope = slope, fr_intercept = intercept,
             fr_r2 = r2, fr_trend = trend\<rparr>))"

section \<open>The anomaly detector (core/anomaly.ts)\<close>

datatype severity = SeverityHigh | SeverityMedium | SeverityLow

datatype anomaly_type = Spike | Drop

record anomaly =
  an_date :: string
  an_revenue :: real
  an_expectedRevenue :: real
  an_deviation :: real
  an_zScore :: real
  an_severity :: severity
  an_type :: anomaly_type
  an_explanation :: string

record anomaly_detection_result =
  ad_anomalies :: "anomaly list"
  ad_mean :: real
  ad_stdDev :: real
  ad_threshold :: real

definition calculateMean :: "real list \<Rightarrow> real" where
  "calculateMean values =
     (if length values = 0 then 0
      else foldl (\<lambda>acc val. acc + val) 0 values / real (length values))"

definition calculateStandardDeviation :: "real list \<Rightarrow> real \<Rightarrow> real" where
  "calculateStandardDeviation values mean =
     (if length values = 0 then 0
      else
        (let squaredDiffs = map (\<lambda>val. (val - mean) ^ 2) values;
             variance = foldl (\<lambda>acc val. acc + val) 0 squaredDiffs / real (length values)
         in sqrt variance))"

definition calculateZScore :: "real \<Rightarrow> real \<Rightarrow> real \<Rightarrow> real" where
  "calculateZScore v mean stdDev = (if stdDev = 0 then 0 else (v - mean) / stdDev)"

definition determineSeverity :: "real \<Rightarrow> severity" where
  "determineSeverity zScore =
     (let absZ = \<bar>zScore\<bar>
      in if absZ \<ge> 3 then SeverityHigh
         else if absZ \<ge> 2.5 then SeverityMedium
         else SeverityLow)"

definition generateExplanation ::
  "js_runtime \<Rightarrow> string \<Rightarrow> real \<Rightarrow> real \<Rightarrow> anomaly_type \<Rightarrow> severity \<Rightarrow> string" where
  "generateExplanation rt date revenue mean type sev =
     (let percentDiff = rt_toFixed rt 1 (js_abs (js_times (js_div (revenue - mean) mean) 100));
          direction = (if type = Spike then ''higher'' else ''lower'');
          severityText = (case sev of
                            SeverityHigh \<Rightarrow> ''significantly''
                          | SeverityMedium \<Rightarrow> ''notably''
                          | SeverityLow \<Rightarrow> ''moderately'');
          dayOfWeek = rt_weekdayLong rt date
      in ''Revenue on '' @ dayOfWeek @ '', '' @ rt_monthDay rt date @ '' was '' @
         severityText @ '' '' @ direction @ '' than average ('' @ percentDiff @
         ''% deviation). This may indicate '' @
         (if type = Spike
          then ''exceptional sales performance, promotion impact, or seasonal demand''
          else ''operational issues, reduced traffic, or external factors'') @ ''.'')"

definition severityOrder :: "severity \<Rightarrow> real" where
  "severityOrder s = (case s of SeverityHigh \<Rightarrow> 3 | SeverityMedium \<Rightarrow> 2 | SeverityLow \<Rightarrow> 1)"

text \<open>The body of the detection loop: the anomaly pushed for a day, if any.\<close>

definition anomalyOfDay ::
  "js_runtime \<Rightarrow> real \<Rightarrow> real \<Rightarrow> real \<Rightarrow> daily_revenue \<Rightarrow> anomaly option" where
  "anomalyOfDay rt mean stdDev threshold day =
     (let zScore = calculateZScore (dr_revenue day) mean stdDev;
          absZScore = \<bar>zScore\<bar>
      in if absZScore \<ge> threshold
         then
           (let type = (if zScore > 0 then Spike else Drop);
                sev = determineSeverity zScore;
                deviation = dr_revenue day - mean
            in Some \<lparr>an_date = dr_date day,
                     an_revenue = dr_revenue day,
                     an_expectedRevenue = toFixed 2 mean,
                     an_deviation = toFixed 2 deviation,
                     an_zScore = toFixed 2 zScore,
                     an_severity = sev,
                     an_type = type,
                     an_explanation =
                       generateExplanation rt (dr_date day) (dr_revenue day) mean type sev\<rparr>)
         else None)"

definition detectAnomalies ::
  "js_runtime \<Rightarrow> daily_revenue list \<Rightarrow> real \<Rightarrow> anomaly_detection_result" where
  "detectAnomalies rt dailyRevenue threshold =
     (if length dailyRevenue = 0
      then \<lparr>ad_anomalies = [], ad_mean = 0, ad_stdDev = 0, ad_threshold = threshold\<rparr>
      else
        (let revenues = map dr_revenue dailyRevenue;
             mean = calculateMean revenues;
             stdDev = calculateStandardDeviation revenues mean;
             anomalies = List.map_filter (anomalyOfDay rt mean stdDev threshold) dailyRevenue;
             sorted =
               js_sort (\<lambda>a b.
                          (let severityDiff =
                                 severityOrder (an_severity b) - severityOrder (an_severity a)
                           in if severityDiff \<noteq> 0 then severityDiff
                              else \<bar>an_zScore b\<bar> - \<bar>an_zScore a\<bar>))
                 anomalies
         in \<lparr>ad_anomalies = sorted, ad_mean = toFixed 2 mean, ad_stdDev = toFixed 2 stdDev,
             ad_threshold = threshold\<rparr>))"

section \<open>The analytics summary (core/analytics.ts)\<close>

record analytics_summary =
  as_totalRevenue :: real
  as_totalCost :: real
  as_totalProfit :: real
  as_profitMargin :: real
  as_healthScore :: real
  as_dailyRevenue :: "daily_revenue list"
  as_monthlyRevenue :: "monthly_revenue list"
  as_topProducts :: "product_performance list"
  as_bottomProducts :: "product_performance list"

definition computeAnalytics :: "js_runtime \<Rightarrow> transaction list \<Rightarrow> real \<Rightarrow> analytics_summary" where
  "computeAnalytics rt transactions anomalyCount =
     (let tot = calculateTotals transactions;
          dailyRevenue = calculateDailyRevenue rt transactions;
          monthlyRevenue = calculateMonthlyRevenue rt transactions;
          products = calculateProductPerformance transactions;
          topProducts = getTopProducts products 5;
          bottomProducts = getBottomProducts products 5;
          healthMetrics = calculateBusinessHealth tot products monthlyRevenue anomalyCount
      in \<lparr>as_totalRevenue = t_totalRevenue tot,
          as_totalCost = t_totalCost tot,
          as_totalProfit = t_totalProfit tot,
          as_profitMargin = t_profitMargin tot,
          as_healthScore = bh_score healthMetrics,
          as_dailyRevenue = dailyRevenue,
          as_monthlyRevenue = monthlyRevenue,
          as_topProducts = topProducts,
          as_bottomProducts = bottomProducts\<rparr>)"

section \<open>The insight synthesizer (core/insight-engine.ts)\<close>

datatype category = Revenue | Profitability | Risk | Opportunity | Warning

datatype priority = High | Medium | Low

record business_insight =
  bi_category :: category
  bi_priority :: priority
  bi_title :: string
  bi_description :: string
  bi_impact :: string
  bi_recommendation :: string

record concentration_metrics =
  cm_topProductShare :: jsnum
  cm_top3ProductShare :: jsnum

text \<open>
  \<open>ta_recentTrend\<close> is declared as one of \<^verbatim>\<open>'up'\<close>, \<^verbatim>\<open>'down'\<close>, \<^verbatim>\<open>'stable'\<close>; the value
  stored at run time is whatever string \<open>prepareMetricsForInsight\<close> is handed.
\<close>

record trend_analysis =
  ta_recentTrend :: string
  ta_growthRate :: jsnum

record metrics_for_insight =
  mi_totalRevenue :: real
  mi_totalProfit :: real
  mi_profitMargin :: real
  mi_healthScore :: real
  mi_revenueConcentration :: concentration_metrics
  mi_trendAnalysis :: trend_analysis
  mi_anomalyCount :: real
  mi_forecastTrend :: string

record key_metrics =
  km_totalRevenue :: real
  km_totalProfit :: real
  km_profitMargin :: real
  km_healthScore :: real
  km_growthRate :: jsnum

record insight_engine_result =
  ir_insights :: "business_insight list"
  ir_executiveSummary :: string
  ir_keyMetrics :: key_metrics
  ir_generatedAt :: int

text \<open>\<^verbatim>\<open>toLowerCase\<close> on the titles, which are ASCII.\<close>

definition toLowerCase :: "string \<Rightarrow> string" where
  "toLowerCase s =
     map (\<lambda>c. if 65 \<le> (of_char c :: nat) \<and> (of_char c :: nat) \<le> 90
               then char_of (of_char c + 32 :: nat) else c) s"

fun join :: "string \<Rightarrow> string list \<Rightarrow> string" where
  "join sep [] = []"
| "join sep [x] = x"
| "join sep (x # y # ys) = x @ sep @ join sep (y # ys)"

definition concentrationInsight :: "js_runtime \<Rightarrow> metrics_for_insight \<Rightarrow> business_insight list" where
  "concentrationInsight rt metrics =
     (if js_gt (cm_top3ProductShare (mi_revenueConcentration metrics)) 0.7
      then [\<lparr>bi_category = Risk,
             bi_priority = High,
             bi_title = ''High Revenue Concentration Risk'',
             bi_description = ''Your top 3 products account for '' @
               rt_toFixed rt 1 (js_times (cm_top3ProductShare (mi_revenueConcentration metrics)) 100) @
               ''% of total revenue, creating dependency risk.'',
             bi_impact = ''Loss of any top product could severely impact overall business revenue.'',
             bi_recommendation =
               ''Diversify product portfolio and develop new revenue streams to reduce concentration risk.''\<rparr>]
      else [])"

definition marginInsight :: "js_runtime \<Rightarrow> metrics_for_insight \<Rightarrow> business_insight list" where
  "marginInsight rt metrics =
     (if mi_profitMargin metrics < 0.15
      then [\<lparr>bi_category = Warning,
             bi_priority = High,
             bi_title = ''Low Profit Margin Alert'',
             bi_description = ''Current profit margin of '' @
               rt_toFixed rt 1 (Finite (mi_profitMargin metrics * 100)) @
               ''% is below healthy threshold of 15%.'',
             bi_impact = ''Thin margins leave little buffer for unexpected costs or market changes.'',
             bi_recommendation =
               ''Review pricing strategy, negotiate better supplier terms, or reduce operational costs.''\<rparr>]
      else if mi_profitMargin metrics > 0.3
      then [\<lparr>bi_category = Profitability,
             bi_priority = Medium,
             bi_title = ''Strong Profit Margins'',
             bi_description = ''Excellent profit margin of '' @
               rt_toFixed rt 1 (Finite (mi_profitMargin metrics * 100)) @
               ''% indicates efficient operations.'',
             bi_impact = ''Strong margins provide financial cushion and growth capital.'',
             bi_recommendation =
               ''Maintain current efficiency while exploring reinvestment opportunities for growth.''\<rparr>]
      else [])"

definition growthInsight :: "js_runtime \<Rightarrow> metrics_for_insight \<Rightarrow> business_insight list" where
  "growthInsight rt metrics =
     (if ta_recentTrend (mi_trendAnalysis metrics) = ''up''
      then [\<lparr>bi_category = Opportunity,
             bi_priority = Medium,
             bi_title = ''Positive Growth Trajectory'',
             bi_description = ''Revenue growing at '' @
               rt_toFixed rt 1 (js_times (ta_growthRate (mi_trendAnalysis metrics)) 100) @
               ''% with upward trend.'',
             bi_impact = ''Growth momentum creates opportunities for expansion and market share.'',
             bi_recommendation =
               ''Capitalize on growth by increasing inventory, hiring capacity, or expanding marketing.''\<rparr>]
      else if ta_recentTrend (mi_trendAnalysis metrics) = ''down''
      then [\<lparr>bi_category = Warning,
             bi_priority = High,
             bi_title = ''Declining Revenue Trend'',
             bi_description = ''Revenue declining at '' @
               rt_toFixed rt 1 (js_abs (js_times (ta_growthRate (mi_trendAnalysis metrics)) 100)) @
               ''% with downward trend.'',
             bi_impact = ''Continued decline could threaten business sustainability.'',
             bi_recommendation =
               ''Investigate root causes: market conditions, competition, product quality, or customer satisfaction.''\<rparr>]
      else [])"

definition anomalyInsight :: "js_runtime \<Rightarrow> metrics_for_insight \<Rightarrow> business_insight list" where
  "anomalyInsight rt metrics =
     (if mi_anomalyCount metrics > 5
      then [\<lparr>bi_category = Risk,
             bi_priority = Medium,
             bi_title = ''Revenue Volatility Detected'',
             bi_description = rt_String rt (mi_anomalyCount metrics) @
               '' revenue anomalies detected, indicating unstable patterns.'',
             bi_impact = ''High volatility makes forecasting and planning difficult.'',
             bi_recommendation =
               ''Stabilize revenue streams through consistent marketing, pricing, and customer retention efforts.''\<rparr>]
      else if mi_anomalyCount metrics = 0
      then [\<lparr>bi_category = Profitability,
             bi_priority = Low,
             bi_title = ''Stable Revenue Patterns'',
             bi_description = ''No significant anomalies detected, indicating stable operations.'',
             bi_impact = ''Predictable revenue enables confident business planning.'',
             bi_recommendation =
               ''Maintain operational consistency while exploring controlled growth initiatives.''\<rparr>]
      else [])"

definition healthInsight :: "js_runtime \<Rightarrow> metrics_for_insight \<Rightarrow> business_insight list" where
  "healthInsight rt metrics =
     (if mi_healthScore metrics \<ge> 80
      then [\<lparr>bi_category = Opportunity,
             bi_priority = Low,
             bi_title = ''Excellent Business Health'',
             bi_description = ''Health score of '' @ rt_String rt (mi_healthScore metrics) @
               ''/100 indicates strong overall performance.'',
             bi_impact = ''Strong position enables strategic investments and expansion.'',
             bi_recommendation = ''Focus on sustainable growth and market leadership opportunities.''\<rparr>]
      else if mi_healthScore metrics < 50
      then [\<lparr>bi_category = Warning,
             bi_priority = High,
             bi_title = ''Business Health Concerns'',
             bi_description = ''Health score of '' @ rt_String rt (mi_healthScore metrics) @
               ''/100 requires immediate attention.'',
             bi_impact = ''Low health score indicates multiple risk factors need addressing.'',
             bi_recommendation =
               ''Prioritize profitability improvement, cost reduction, and revenue stabilization.''\<rparr>]
      else [])"

text \<open>
  \<open>generateFallbackInsights\<close>: the five blocks push their insights in this order; \<open>now\<close>
  is the clock read by \<^verbatim>\<open>new Date()\<close>.
\<close>

definition generateFallbackInsights ::
  "js_runtime \<Rightarrow> int \<Rightarrow> metrics_for_insight \<Rightarrow> insight_engine_result" where
  "generateFallbackInsights rt now metrics =
     (let insights = concentrationInsight rt metrics @ marginInsight rt metrics @
                     growthInsight rt metrics @ anomalyInsight rt metrics @
                     healthInsight rt metrics;
          opening =
            (if mi_healthScore metrics \<ge> 70
             then ''Business is performing well with '' @
                  rt_toFixed rt 1 (Finite (mi_profitMargin metrics * 100)) @
                  ''% profit margin and '' @ ta_recentTrend (mi_trendAnalysis metrics) @
                  '' revenue trend. ''
             else if mi_healthScore metrics \<ge> 50
             then ''Business shows moderate health with room for improvement. ''
             else ''Business requires urgent attention across multiple areas. '');
          executiveSummary = opening @ ''Key priorities: '' @
            join '', '' (map (\<lambda>i. toLowerCase (bi_title i))
                           (filter (\<lambda>i. bi_priority i = High) insights)) @ ''.''
      in \<lparr>ir_insights = take 6 insights,
          ir_executiveSummary = executiveSummary,
          ir_keyMetrics =
            \<lparr>km_totalRevenue = mi_totalRevenue metrics,
             km_totalProfit = mi_totalProfit metrics,
             km_profitMargin = mi_profitMargin metrics,
             km_healthScore = mi_healthScore metrics,
             km_growthRate = ta_growthRate (mi_trendAnalysis metrics)\<rparr>,
          ir_generatedAt = now\<rparr>)"

text \<open>
  \<open>prepareMetricsForInsight\<close>: its divisions are not guarded, and
  \<^verbatim>\<open>topProducts[0]?.totalRevenue\<close> is \<^verbatim>\<open>undefined\<close> without products, which divides to
  \<^verbatim>\<open>NaN\<close>. \<^verbatim>\<open>slice(-3)\<close> keeps the last three months.
\<close>

definition prepareMetricsForInsight ::
  "analytics_summary \<Rightarrow> forecast_result \<Rightarrow> anomaly_detection_result \<Rightarrow> metrics_for_insight" where
  "prepareMetricsForInsight analytics forecast anomalies =
     (let recentMonths = drop (length (as_monthlyRevenue analytics) - 3) (as_monthlyRevenue analytics);
          growthRate =
            (if length recentMonths \<ge> 2
             then js_div (mr_revenue (last recentMonths) - mr_revenue (hd recentMonths))
                    (mr_revenue (hd recentMonths))
             else Finite 0)
      in \<lparr>mi_totalRevenue = as_totalRevenue analytics,
          mi_totalProfit = as_totalProfit analytics,
          mi_profitMargin = as_profitMargin analytics,
          mi_healthScore = as_healthScore analytics,
          mi_revenueConcentration =
            \<lparr>cm_topProductShare =
               js_or_zero (case as_topProducts analytics of
                             [] \<Rightarrow> NaN
                           | p # _ \<Rightarrow> js_div (pp_totalRevenue p) (as_totalRevenue analytics)),
             cm_top3ProductShare =
               js_div (foldl (\<lambda>sum p. sum + pp_totalRevenue p) 0 (take 3 (as_topProducts analytics)))
                 (as_totalRevenue analytics)\<rparr>,
          mi_trendAnalysis = \<lparr>ta_recentTrend = fr_trend forecast, ta_growthRate = growthRate\<rparr>,
          mi_anomalyCount = real (length (ad_anomalies anomalies)),
          mi_forecastTrend = fr_trend forecast\<rparr>)"

section \<open>A runtime for evaluation\<close>

text \<open>
  The runtime at which the model is evaluated on concrete inputs: the time zone is UTC
  and the calendar is the Gregorian one, for the years 0 to 9999 that print with four
  digits. Dates are read in the form \<^verbatim>\<open>YYYY-MM-DD\<close>. Integers print in decimal digits;
  other numbers print here with six decimals.
\<close>

fun show_nat :: "nat \<Rightarrow> string" where
  "show_nat n =
     (if n < 10 then [char_of (48 + n)]
      else show_nat (n div 10) @ [char_of (48 + n mod 10)])"

declare show_nat.simps [simp del]

definition show_int :: "int \<Rightarrow> string" where
  "show_int i = (if i < 0 then ''-'' @ show_nat (nat (- i)) else show_nat (nat i))"

definition show_fixed :: "nat \<Rightarrow> real \<Rightarrow> string" where
  "show_fixed d x =
     (let n = nat \<lfloor>\<bar>x\<bar> * 10 ^ d + 1 / 2\<rfloor>;
          digits = padStart (d + 1) (CHR ''0'') (show_nat n);
          whole = take (length digits - d) digits;
          frac = drop (length digits - d) digits
      in (if x < 0 then ''-'' else []) @ whole @ (if d = 0 then [] else ''.'' @ frac))"

definition civil_from_days :: "int \<Rightarrow> int \<times> int \<times> int" where
  "civil_from_days days =
     (let z = days + 719468;
          era = z div 146097;
          doe = z mod 146097;
          yoe = (doe - doe div 1460 + doe div 36524 - doe div 146096) div 365;
          y = yoe + era * 400;
          doy = doe - (365 * yoe + yoe div 4 - yoe div 100);
          mp = (5 * doy + 2) div 153;
          d = doy - (153 * mp + 2) div 5 + 1;
          m = (if mp < 10 then mp + 3 else mp - 9)
      in (if m \<le> 2 then y + 1 else y, m, d))"

definition days_from_civil :: "int \<Rightarrow> int \<Rightarrow> int \<Rightarrow> int" where
  "days_from_civil year m d =
     (let y = (if m \<le> 2 then year - 1 else year);
          era = y div 400;
          yoe = y mod 400;
          doy = (153 * (if m > 2 then m - 3 else m + 9) + 2) div 5 + d - 1;
          doe = yoe * 365 + yoe div 4 - yoe div 100 + doy
      in era * 146097 + doe - 719468)"

definition digits_value :: "string \<Rightarrow> int" where
  "digits_value s = foldl (\<lambda>v c. v * 10 + (int (of_char c) - 48)) 0 s"

definition utc_days :: "string \<Rightarrow> int" where
  "utc_days s =
     days_from_civil (digits_value (take 4 s)) (digits_value (take 2 (drop 5 s)))
       (digits_value (take 2 (drop 8 s)))"

definition utc_isoDate :: "int \<Rightarrow> string" where
  "utc_isoDate days =
     (case civil_from_days days of (y, m, d) \<Rightarrow>
        padStart 4 (CHR ''0'') (show_int y) @ ''-'' @ padStart 2 (CHR ''0'') (show_int m) @ ''-'' @
        padStart 2 (CHR ''0'') (show_int d))"

definition weekdayNames :: "string list" where
  "weekdayNames =
     [''Sunday'', ''Monday'', ''Tuesday'', ''Wednesday'', ''Thursday'', ''Friday'', ''Saturday'']"

definition monthNames :: "string list" where
  "monthNames =
     [''Jan'', ''Feb'', ''Mar'', ''Apr'', ''May'', ''Jun'', ''Jul'', ''Aug'', ''Sep'', ''Oct'',
      ''Nov'', ''Dec'']"

definition utc_runtime :: js_runtime where
  "utc_runtime =
     \<lparr>rt_toISODate = (\<lambda>t. utc_isoDate (t div 86400000)),
      rt_getFullYear = (\<lambda>t. fst (civil_from_days (t div 86400000))),
      rt_getMonth = (\<lambda>t. nat (fst (snd (civil_from_days (t div 86400000))) - 1)),
      rt_getTime = (\<lambda>s. of_int (utc_days s * 86400000)),
      rt_addDays = (\<lambda>s i. utc_isoDate (utc_days s + i)),
      rt_weekdayLong = (\<lambda>s. weekdayNames ! nat ((utc_days s + 4) mod 7)),
      rt_monthDay = (\<lambda>s. monthNames ! nat (digits_value (take 2 (drop 5 s)) - 1) @ '' '' @
                          show_int (digits_value (take 2 (drop 8 s)))),
      rt_String = (\<lambda>x. if x = of_int \<lfloor>x\<rfloor> then show_int \<lfloor>x\<rfloor> else show_fixed 6 x),
      rt_toFixed = (\<lambda>d v. case v of
                             Finite x \<Rightarrow> show_fixed d x
                           | Infinity \<Rightarrow> ''Infinity''
                           | NegInfinity \<Rightarrow> ''-Infinity''
                           | NaN \<Rightarrow> ''NaN'')\<rparr>"

section \<open>Example inputs\<close>

text \<open>Concrete inputs at which the model is evaluated below.\<close>

definition example_totals :: totals where
  "example_totals =
     \<lparr>t_totalRevenue = 100, t_totalCost = 50, t_totalProfit = 50, t_profitMargin = 1 / 2\<rparr>"

definition example_months :: "monthly_revenue list" where
  "example_months =
     [\<lparr>mr_month = ''2024-01'', mr_revenue = 100, mr_cost = 40, mr_profit = 60, mr_profitMargin = 3 / 5\<rparr>,
      \<lparr>mr_month = ''2024-02'', mr_revenue = 200, mr_cost = 80, mr_profit = 120, mr_profitMargin = 3 / 5\<rparr>]"

definition example_products :: "product_performance list" where
  "example_products =
     [\<lparr>pp_productName = ''Espresso'', pp_totalRevenue = 11, pp_totalCost = 4, pp_totalProfit = 7,
       pp_profitMargin = 0.6364, pp_quantity = 3, pp_transactionCount = 2\<rparr>,
      \<lparr>pp_productName = ''Latte'', pp_totalRevenue = 10, pp_totalCost = 4, pp_totalProfit = 6,
       pp_profitMargin = 0.6, pp_quantity = 2, pp_transactionCount = 1\<rparr>,
      \<lparr>pp_productName = ''Mocha'', pp_totalRevenue = 10, pp_totalCost = 5, pp_totalProfit = 5,
       pp_profitMargin = 0.5, pp_quantity = 2, pp_transactionCount = 1\<rparr>,
      \<lparr>pp_productName = ''Tea'', pp_totalRevenue = 1, pp_totalCost = 0.5, pp_totalProfit = 0.5,
       pp_profitMargin = 0.5, pp_quantity = 1, pp_transactionCount = 1\<rparr>]"

definition example_day :: daily_revenue where
  "example_day = \<lparr>dr_date = ''2024-01-01'', dr_revenue = 100, dr_cost = 40, dr_profit = 60\<rparr>"

definition example_days :: "daily_revenue list" where
  "example_days =
     [\<lparr>dr_date = ''2024-01-02'', dr_revenue = 200, dr_cost = 80, dr_profit = 120\<rparr>,
      \<lparr>dr_date = ''2024-01-01'', dr_revenue = 100, dr_cost = 40, dr_profit = 60\<rparr>,
      \<lparr>dr_date = ''2024-01-03'', dr_revenue = 100, dr_cost = 40, dr_profit = 60\<rparr>,
      \<lparr>dr_date = ''2024-01-04'', dr_revenue = 200, dr_cost = 80, dr_profit = 120\<rparr>]"

definition flat_days :: "daily_revenue list" where
  "flat_days =
     [\<lparr>dr_date = ''2024-01-01'', dr_revenue = 100, dr_cost = 40, dr_profit = 60\<rparr>,
      \<lparr>dr_date = ''2024-01-02'', dr_revenue = 100, dr_cost = 35, dr_profit = 65\<rparr>,
      \<lparr>dr_date = ''2024-01-03'', dr_revenue = 100, dr_cost = 50, dr_profit = 50\<rparr>]"

definition example_metrics :: metrics_for_insight where
  "example_metrics =
     \<lparr>mi_totalRevenue = 138, mi_totalProfit = 103.3, mi_profitMargin = 0.7485,
      mi_healthScore = 62,
      mi_revenueConcentration =
        \<lparr>cm_topProductShare = Finite 0.558, cm_top3ProductShare = Finite 1\<rparr>,
      mi_trendAnalysis = \<lparr>ta_recentTrend = ''stable'', ta_growthRate = Finite (- 0.6471)\<rparr>,
      mi_anomalyCount = 0,
      mi_forecastTrend = ''stable''\<rparr>"


definition borderline_days :: "daily_revenue list" where
  "borderline_days =
     [\<lparr>dr_date = ''2024-01-01'', dr_revenue = 100, dr_cost = 40, dr_profit = 60\<rparr>,
      \<lparr>dr_date = ''2024-01-02'', dr_revenue = 275, dr_cost = 110, dr_profit = 165\<rparr>,
      \<lparr>dr_date = ''2024-01-03'', dr_revenue = 196, dr_cost = 80, dr_profit = 116\<rparr>]"


definition signed_products :: "product_performance list" where
  "signed_products =
     [\<lparr>pp_productName = ''Espresso'', pp_totalRevenue = 5, pp_totalCost = 2, pp_totalProfit = 3,
       pp_profitMargin = 0.6, pp_quantity = 2, pp_transactionCount = 1\<rparr>,
      \<lparr>pp_productName = ''Refund'', pp_totalRevenue = - 3, pp_totalCost = 0, pp_totalProfit = - 3,
       pp_profitMargin = 0, pp_quantity = 1, pp_transactionCount = 1\<rparr>]"

section \<open>Properties of rounding, sorting and the aggregator's sums\<close>

lemma foldl_plus_sum_list:
  "foldl (\<lambda>s p. s + f p) a xs = a + sum_list (map f xs)"
  for a :: real
  by (induction xs arbitrary: a) auto

lemma Math_round_Ints: "Math_round x \<in> \<int>"
  by (simp add: Math_round_def)

lemma Math_round_range:
  assumes "0 \<le> x" and "x \<le> 100"
  shows "0 \<le> Math_round x \<and> Math_round x \<le> 100"
proof -
  have "0 \<le> \<lfloor>x + 1 / 2\<rfloor>" using assms by simp
  moreover have "\<lfloor>x + 1 / 2\<rfloor> \<le> 100" using assms by (simp add: floor_le_iff)
  ultimately show ?thesis by (simp add: Math_round_def)
qed

lemma round_scaled_error:
  fixes y p :: real
  assumes "0 < p"
  shows "\<bar>of_int \<lfloor>y * p + 1 / 2\<rfloor> / p - y\<bar> \<le> 1 / (2 * p)"
proof -
  define z where "z = y * p"
  have e: "\<bar>of_int \<lfloor>z + 1 / 2\<rfloor> - z\<bar> \<le> 1 / 2" by linarith
  have "of_int \<lfloor>z + 1 / 2\<rfloor> / p - y = (of_int \<lfloor>z + 1 / 2\<rfloor> - z) / p"
    using assms by (simp add: z_def diff_divide_distrib)
  then have "\<bar>of_int \<lfloor>z + 1 / 2\<rfloor> / p - y\<bar> = \<bar>of_int \<lfloor>z + 1 / 2\<rfloor> - z\<bar> / p"
    using assms by simp
  also have "\<dots> \<le> (1 / 2) / p"
    using e assms by (intro divide_right_mono) simp_all
  finally show ?thesis by (simp add: z_def)
qed

lemma toFixed_error: "\<bar>toFixed d x - x\<bar> \<le> 1 / (2 * 10 ^ d)"
proof (cases "x < 0")
  case True
  have "\<bar>toFixed d x - x\<bar> = \<bar>of_int \<lfloor>(- x) * 10 ^ d + 1 / 2\<rfloor> / 10 ^ d - (- x)\<bar>"
    using True by (simp add: toFixed_def)
  then show ?thesis using round_scaled_error [of "10 ^ d" "- x"] by simp
next
  case False
  then show ?thesis using round_scaled_error [of "10 ^ d" x] by (simp add: toFixed_def)
qed

lemma toFixed_unit:
  assumes "0 \<le> x" and "x \<le> 1"
  shows "0 \<le> toFixed d x \<and> toFixed d x \<le> 1"
proof -
  define p :: real where "p = 10 ^ d"
  define n :: int where "n = 10 ^ d"
  have pn: "p = of_int n" by (simp add: p_def n_def)
  have pos: "0 < p" by (simp add: p_def)
  have a: "0 \<le> \<lfloor>x * p + 1 / 2\<rfloor>" using assms pos by simp
  have "x * p \<le> 1 * p" using assms pos by (intro mult_right_mono) simp_all
  then have "x * p + 1 / 2 < of_int (n + 1)" unfolding pn by simp
  then have "\<lfloor>x * p + 1 / 2\<rfloor> < n + 1"
    by (simp only: floor_less_iff)
  then have b: "\<lfloor>x * p + 1 / 2\<rfloor> \<le> n" by simp
  have "(of_int \<lfloor>x * p + 1 / 2\<rfloor> :: real) \<le> of_int n"
    using b by (simp only: of_int_le_iff)
  then have c: "(of_int \<lfloor>x * p + 1 / 2\<rfloor> :: real) \<le> p"
    by (simp only: pn)
  have "0 \<le> of_int \<lfloor>x * p + 1 / 2\<rfloor> / p \<and> of_int \<lfloor>x * p + 1 / 2\<rfloor> / p \<le> 1"
    using a c pos by (simp add: divide_le_eq)
  then show ?thesis using assms by (simp add: toFixed_def p_def)
qed

lemma toFixed_mono:
  assumes "x \<le> y" and "0 \<le> x"
  shows "toFixed d x \<le> toFixed d y"
proof -
  have "\<lfloor>x * 10 ^ d + 1 / 2\<rfloor> \<le> \<lfloor>y * 10 ^ d + 1 / 2\<rfloor>"
    using assms by (intro floor_mono) simp
  then show ?thesis using assms by (simp add: toFixed_def divide_right_mono)
qed


lemma sum_take_le:
  fixes f :: "'a \<Rightarrow> real"
  assumes "\<forall>x\<in>set xs. 0 \<le> f x"
  shows "sum_list (map f (take n xs)) \<le> sum_list (map f xs)"
proof -
  have "sum_list (map f xs) = sum_list (map f (take n xs)) + sum_list (map f (drop n xs))"
    by (metis append_take_drop_id map_append sum_list.append)
  moreover have "0 \<le> sum_list (map f (drop n xs))"
    using assms by (intro sum_list_nonneg) (auto dest: in_set_dropD)
  ultimately show ?thesis by simp
qed

lemma concentration_raw:
  assumes nn: "\<forall>p\<in>set products. 0 \<le> pp_totalRevenue p"
    and tot: "sum_list (map pp_totalRevenue products) \<noteq> 0"
  shows "0 \<le> (case products of [] \<Rightarrow> 0 | p # _ \<Rightarrow> pp_totalRevenue p / sum_list (map pp_totalRevenue products))"
    and "(case products of [] \<Rightarrow> 0 | p # _ \<Rightarrow> pp_totalRevenue p / sum_list (map pp_totalRevenue products))
          \<le> sum_list (map pp_totalRevenue (take 3 products)) / sum_list (map pp_totalRevenue products)"
    and "sum_list (map pp_totalRevenue (take 3 products)) / sum_list (map pp_totalRevenue products) \<le> 1"
proof -
  let ?T = "sum_list (map pp_totalRevenue products)"
  have T0: "0 \<le> ?T" using nn by (intro sum_list_nonneg) auto
  then have Tpos: "0 < ?T" using tot by simp
  show "0 \<le> (case products of [] \<Rightarrow> 0 | p # _ \<Rightarrow> pp_totalRevenue p / ?T)"
    using nn Tpos by (cases products) simp_all
  have "sum_list (map pp_totalRevenue (take 1 products)) \<le> sum_list (map pp_totalRevenue (take 3 products))"
  proof -
    have "take 1 products = take 1 (take 3 products)" by simp
    moreover have "\<forall>p\<in>set (take 3 products). 0 \<le> pp_totalRevenue p"
      using nn by (auto dest: in_set_takeD)
    ultimately show ?thesis using sum_take_le [of "take 3 products" pp_totalRevenue 1] by simp
  qed
  then have "(case products of [] \<Rightarrow> 0 | p # _ \<Rightarrow> pp_totalRevenue p)
      \<le> sum_list (map pp_totalRevenue (take 3 products))"
    by (cases products) simp_all
  then have "(case products of [] \<Rightarrow> 0 | p # _ \<Rightarrow> pp_totalRevenue p) / ?T
      \<le> sum_list (map pp_totalRevenue (take 3 products)) / ?T"
    using Tpos by (intro divide_right_mono) simp_all
  then show "(case products of [] \<Rightarrow> 0 | p # _ \<Rightarrow> pp_totalRevenue p / ?T)
          \<le> sum_list (map pp_totalRevenue (take 3 products)) / ?T"
    by (cases products) simp_all
  have "sum_list (map pp_totalRevenue (take 3 products)) \<le> ?T"
    using nn by (rule sum_take_le)
  then show "sum_list (map pp_totalRevenue (take 3 products)) / ?T \<le> 1"
    using Tpos by simp
qed

lemma concentration_unfold:
  "calculateRevenueConcentration products =
     (if sum_list (map pp_totalRevenue products) = 0
      then \<lparr>rc_topProductShare = 0, rc_top3ProductShare = 0, rc_diversificationScore = 1\<rparr>
      else \<lparr>rc_topProductShare = toFixed 4 (case products of [] \<Rightarrow> 0
                | p # _ \<Rightarrow> pp_totalRevenue p / sum_list (map pp_totalRevenue products)),
            rc_top3ProductShare = toFixed 4 (sum_list (map pp_totalRevenue (take 3 products)) /
                sum_list (map pp_totalRevenue products)),
            rc_diversificationScore = toFixed 4 (1 - sum_list (map pp_totalRevenue (take 3 products)) /
                sum_list (map pp_totalRevenue products))\<rparr>)"
  by (simp add: calculateRevenueConcentration_def Let_def foldl_plus_sum_list)

lemma health_fields:
  "bh_score (calculateBusinessHealth tot products monthlyRevenue anomalyCount) =
     Math_round (min (max (min (t_profitMargin tot * 100 * 3) 100 * 0.3 +
        min (max ((calculateGrowthRate monthlyRevenue + 0.5) * 100) 0) 100 * 0.25 +
        max (100 - anomalyCount * 10) 0 * 0.25 +
        rc_diversificationScore (calculateRevenueConcentration products) * 100 * 0.2) 0) 100)"
  "bh_profitabilityScore (calculateBusinessHealth tot products monthlyRevenue anomalyCount) =
     Math_round (min (t_profitMargin tot * 100 * 3) 100)"
  "bh_growthScore (calculateBusinessHealth tot products monthlyRevenue anomalyCount) =
     Math_round (min (max ((calculateGrowthRate monthlyRevenue + 0.5) * 100) 0) 100)"
  "bh_stabilityScore (calculateBusinessHealth tot products monthlyRevenue anomalyCount) =
     Math_round (max (100 - anomalyCount * 10) 0)"
  "bh_diversificationScore (calculateBusinessHealth tot products monthlyRevenue anomalyCount) =
     Math_round (rc_diversificationScore (calculateRevenueConcentration products) * 100)"
  unfolding calculateBusinessHealth_def Let_def by simp_all

lemma growth_none: "calculateGrowthRate [] = 0"
  by (simp add: calculateGrowthRate_def)

lemma concentration_none:
  "calculateRevenueConcentration [] =
     \<lparr>rc_topProductShare = 0, rc_top3ProductShare = 0, rc_diversificationScore = 1\<rparr>"
  by (simp add: calculateRevenueConcentration_def)

lemma toFixed_4_1: "toFixed 4 1 = 1"
  by (simp add: toFixed_def)

lemma growth_doubling: "calculateGrowthRate example_months = 1"
  by (simp add: example_months_def calculateGrowthRate_def js_sort_def localeCompare_def
      Let_def toFixed_4_1)

lemma toFixed_ties:
  "toFixed 4 (31 / 32) = 9688 / 10000"
  "toFixed 4 (1 / 32) = 313 / 10000"
  "toFixed 4 (11 / 32) = 3438 / 10000"
  by (simp_all add: toFixed_def)

lemma concentration_tie:
  "calculateRevenueConcentration example_products =
     \<lparr>rc_topProductShare = 3438 / 10000, rc_top3ProductShare = 9688 / 10000,
      rc_diversificationScore = 313 / 10000\<rparr>"
  unfolding concentration_unfold example_products_def by (simp add: toFixed_ties)

section \<open>The health score\<close>

text \<open>
  C1 (as amended). For every input with profit margin at least 1/3, anomaly count 0 and
  full diversification (diversification score 1): with growth rate 0 the overall score
  of \<open>calculateBusinessHealth\<close> is 88, the growth component being 50 there; the overall
  score is 100 when the growth rate is at least 1/2.
\<close>

theorem health_score_saturation:
  assumes pm: "1 / 3 \<le> t_profitMargin tot"
    and dv: "rc_diversificationScore (calculateRevenueConcentration products) = 1"
  shows "(calculateGrowthRate monthlyRevenue = 0 \<longrightarrow>
            bh_score (calculateBusinessHealth tot products monthlyRevenue 0) = 88)
       \<and> (1 / 2 \<le> calculateGrowthRate monthlyRevenue \<longrightarrow>
            bh_score (calculateBusinessHealth tot products monthlyRevenue 0) = 100)"
proof -
  have p: "min (t_profitMargin tot * 100 * 3) 100 = 100" using pm by simp
  have s0: "bh_score (calculateBusinessHealth tot products monthlyRevenue 0) = 88"
    if "calculateGrowthRate monthlyRevenue = 0"
    unfolding health_fields p dv that by (simp add: Math_round_def)
  have s1: "bh_score (calculateBusinessHealth tot products monthlyRevenue 0) = 100"
    if g: "1 / 2 \<le> calculateGrowthRate monthlyRevenue"
  proof -
    have "min (max ((calculateGrowthRate monthlyRevenue + 0.5) * 100) 0) 100 = 100"
      using g by simp
    then show ?thesis unfolding health_fields p dv by (simp add: Math_round_def)
  qed
  show ?thesis using s0 s1 by blast
qed

text \<open>
  The theorem at a margin of 1/2 with no products: without months (growth rate 0) and
  with a revenue that doubles from the first month to the last (growth rate 1).
\<close>

theorem health_score_saturation_witness:
  "bh_score (calculateBusinessHealth example_totals [] [] 0) = 88
   \<and> bh_score (calculateBusinessHealth example_totals [] example_months 0) = 100"
proof -
  have pm: "1 / 3 \<le> t_profitMargin example_totals" by (simp add: example_totals_def)
  have dv: "rc_diversificationScore (calculateRevenueConcentration []) = 1"
    by (simp add: concentration_none)
  have a: "bh_score (calculateBusinessHealth example_totals [] [] 0) = 88"
    using health_score_saturation [OF pm dv, of "[]"] by (simp only: growth_none simp_thms)
  have g: "(1::real) / 2 \<le> calculateGrowthRate example_months" by (simp only: growth_doubling)
  have b: "bh_score (calculateBusinessHealth example_totals [] example_months 0) = 100"
    using health_score_saturation [OF pm dv, of example_months] g by blast
  show ?thesis using a b by blast
qed

text \<open>
  The claim as stated fails: margin 1/2, no anomaly, growth rate 0 and diversification
  score 1 give the overall score 88, not 100.
\<close>

theorem health_score_saturation_counterexample:
  "1 / 3 \<le> t_profitMargin example_totals
   \<and> calculateGrowthRate [] = 0
   \<and> rc_diversificationScore (calculateRevenueConcentration []) = 1
   \<and> bh_score (calculateBusinessHealth example_totals [] [] 0) = 88
   \<and> bh_score (calculateBusinessHealth example_totals [] [] 0) \<noteq> 100"
  unfolding health_fields growth_none concentration_none example_totals_def
  by (simp add: Math_round_def)

section \<open>Revenue concentration\<close>

lemma concentration_all_zero:
  assumes "\<forall>p\<in>set products. pp_totalRevenue p = 0"
  shows "calculateRevenueConcentration products =
     \<lparr>rc_topProductShare = 0, rc_top3ProductShare = 0, rc_diversificationScore = 1\<rparr>"
proof -
  have "sum_list (map pp_totalRevenue products) = 0"
    using assms by (induction products) auto
  then show ?thesis by (simp add: concentration_unfold)
qed

lemma concentration_ordered:
  assumes nn: "\<forall>p\<in>set products. 0 \<le> pp_totalRevenue p"
  shows "rc_topProductShare (calculateRevenueConcentration products)
           \<le> rc_top3ProductShare (calculateRevenueConcentration products)"
    and "rc_top3ProductShare (calculateRevenueConcentration products) \<le> 1"
proof -
  let ?t = "case products of [] \<Rightarrow> 0 | p # _ \<Rightarrow> pp_totalRevenue p / sum_list (map pp_totalRevenue products)"
  let ?s = "sum_list (map pp_totalRevenue (take 3 products)) / sum_list (map pp_totalRevenue products)"
  have "rc_topProductShare (calculateRevenueConcentration products)
           \<le> rc_top3ProductShare (calculateRevenueConcentration products)
       \<and> rc_top3ProductShare (calculateRevenueConcentration products) \<le> 1"
  proof (cases "sum_list (map pp_totalRevenue products) = 0")
    case True
    then show ?thesis by (simp add: concentration_unfold)
  next
    case False
    note raw = concentration_raw [OF nn False]
    have a: "toFixed 4 ?t \<le> toFixed 4 ?s" using raw(1,2) by (intro toFixed_mono)
    have "0 \<le> ?s" using raw(1,2) by linarith
    then have b: "toFixed 4 ?s \<le> 1" using raw(3) toFixed_unit [of ?s 4] by simp
    show ?thesis using False a b by (simp add: concentration_unfold)
  qed
  then show "rc_topProductShare (calculateRevenueConcentration products)
           \<le> rc_top3ProductShare (calculateRevenueConcentration products)"
    and "rc_top3ProductShare (calculateRevenueConcentration products) \<le> 1"
    by simp_all
qed

lemma concentration_complement:
  "\<bar>rc_diversificationScore (calculateRevenueConcentration products)
      - (1 - rc_top3ProductShare (calculateRevenueConcentration products))\<bar> \<le> 1 / 10000"
proof (cases "sum_list (map pp_totalRevenue products) = 0")
  case True
  then show ?thesis by (simp add: concentration_unfold)
next
  case False
  let ?s = "sum_list (map pp_totalRevenue (take 3 products)) / sum_list (map pp_totalRevenue products)"
  have "\<bar>toFixed 4 (1 - ?s) - (1 - ?s)\<bar> \<le> 1 / 20000" using toFixed_error [of 4 "1 - ?s"] by simp
  moreover have "\<bar>toFixed 4 ?s - ?s\<bar> \<le> 1 / 20000" using toFixed_error [of 4 ?s] by simp
  ultimately have "\<bar>toFixed 4 (1 - ?s) - (1 - toFixed 4 ?s)\<bar> \<le> 1 / 10000" by linarith
  then show ?thesis using False by (simp add: concentration_unfold)
qed

lemma concentration_signed:
  "calculateRevenueConcentration signed_products =
     \<lparr>rc_topProductShare = 5 / 2, rc_top3ProductShare = 1, rc_diversificationScore = 0\<rparr>"
  unfolding concentration_unfold signed_products_def by (simp add: toFixed_def)

text \<open>
  C6 (as amended). When every revenue is 0, in particular without products,
  \<open>calculateRevenueConcentration\<close> returns the shares 0 and 0 and the diversification
  score 1. For every product list with non-negative revenues whose total is at most
  \<open>10\<^sup>3\<^sup>0\<^sup>0\<close>, it returns \<open>topProductShare \<le> top3ProductShare \<le> 1\<close> and a
  diversification score within 0.0002 of \<open>1 - top3ProductShare\<close>, not always equal to
  it: the score and the share are rounded to four decimals separately. The two
  hypotheses keep the share of the first three products between 0 and 1 and the total
  finite in double precision; a negative revenue breaks the order of the shares.
\<close>

theorem concentration_shares:
  "((\<forall>p\<in>set products. pp_totalRevenue p = 0) \<longrightarrow>
      calculateRevenueConcentration products =
        \<lparr>rc_topProductShare = 0, rc_top3ProductShare = 0, rc_diversificationScore = 1\<rparr>)
   \<and> ((\<forall>p\<in>set products. 0 \<le> pp_totalRevenue p)
        \<and> sum_list (map pp_totalRevenue products) \<le> 10 ^ 300 \<longrightarrow>
      rc_topProductShare (calculateRevenueConcentration products)
        \<le> rc_top3ProductShare (calculateRevenueConcentration products)
      \<and> rc_top3ProductShare (calculateRevenueConcentration products) \<le> 1
      \<and> \<bar>rc_diversificationScore (calculateRevenueConcentration products)
           - (1 - rc_top3ProductShare (calculateRevenueConcentration products))\<bar> \<le> 2 / 10000)"
proof -
  have "\<bar>rc_diversificationScore (calculateRevenueConcentration products)
           - (1 - rc_top3ProductShare (calculateRevenueConcentration products))\<bar> \<le> 2 / 10000"
    using concentration_complement [of products] by linarith
  then show ?thesis
    using concentration_all_zero [of products] concentration_ordered [of products] by blast
qed

text \<open>The theorem at four products with revenues 11, 10, 10 and 1, and at no products.\<close>

theorem concentration_shares_witness:
  "rc_topProductShare (calculateRevenueConcentration example_products)
       \<le> rc_top3ProductShare (calculateRevenueConcentration example_products)
   \<and> rc_top3ProductShare (calculateRevenueConcentration example_products) \<le> 1
   \<and> \<bar>rc_diversificationScore (calculateRevenueConcentration example_products)
        - (1 - rc_top3ProductShare (calculateRevenueConcentration example_products))\<bar> \<le> 2 / 10000
   \<and> calculateRevenueConcentration [] =
        \<lparr>rc_topProductShare = 0, rc_top3ProductShare = 0, rc_diversificationScore = 1\<rparr>"
proof -
  have nn: "(\<forall>p\<in>set example_products. 0 \<le> pp_totalRevenue p)
      \<and> sum_list (map pp_totalRevenue example_products) \<le> 10 ^ 300"
    by (simp add: example_products_def)
  have z: "\<forall>p\<in>set []. pp_totalRevenue p = 0" by simp
  show ?thesis
    using nn z concentration_shares [of example_products] concentration_shares [of "[]"]
    by blast
qed

text \<open>
  The claim as stated fails twice. With revenues 11, 10, 10 and 1 the share of the
  first three products is 31/32 = 0.96875, returned as 0.9688, and the diversification
  score is 1/32 = 0.03125, returned as 0.0313, which is not 1 - 0.9688. With revenues 5
  and -3 the first share is 2.5 and the share of the first three products is 1.
\<close>

theorem concentration_shares_counterexample:
  "rc_top3ProductShare (calculateRevenueConcentration example_products) = 9688 / 10000
   \<and> rc_diversificationScore (calculateRevenueConcentration example_products) = 313 / 10000
   \<and> rc_diversificationScore (calculateRevenueConcentration example_products)
       \<noteq> 1 - rc_top3ProductShare (calculateRevenueConcentration example_products)
   \<and> rc_topProductShare (calculateRevenueConcentration signed_products) = 5 / 2
   \<and> rc_top3ProductShare (calculateRevenueConcentration signed_products) = 1
   \<and> \<not> rc_topProductShare (calculateRevenueConcentration signed_products)
       \<le> rc_top3ProductShare (calculateRevenueConcentration signed_products)"
  unfolding concentration_tie concentration_signed by simp

section \<open>The forecaster\<close>

lemma toFixed_0: "toFixed d 0 = 0"
  by (simp add: toFixed_def)

lemma toFixed_4_100: "toFixed 4 100 = 100"
  by (simp add: toFixed_def)

lemma js_sort_single: "js_sort cmp [x] = [x]"
  by (simp add: js_sort_def)

lemma regression_none:
  "calculateLinearRegression [] = \<lparr>rg_slope = 0, rg_intercept = 0, rg_r2 = 0\<rparr>"
  by (simp add: calculateLinearRegression_def)

lemma regression_single:
  "calculateLinearRegression [p] =
     \<lparr>rg_slope = 0, rg_intercept = toFixed 4 (pt_y p), rg_r2 = 0\<rparr>"
  by (simp add: calculateLinearRegression_def Let_def toFixed_0)

lemma standard_error_few:
  "length data < 3 \<Longrightarrow> calculateStandardError data slope intercept = 0"
  by (simp add: calculateStandardError_def Let_def)

lemma forecast_fields:
  "fr_slope (forecastRevenue rt dailyRevenue n) =
     (if dailyRevenue = [] then 0
      else rg_slope (calculateLinearRegression (regressionDataOf (sortByDate rt dailyRevenue))))"
  "fr_intercept (forecastRevenue rt dailyRevenue n) =
     (if dailyRevenue = [] then 0
      else rg_intercept (calculateLinearRegression (regressionDataOf (sortByDate rt dailyRevenue))))"
  "fr_r2 (forecastRevenue rt dailyRevenue n) =
     (if dailyRevenue = [] then 0
      else rg_r2 (calculateLinearRegression (regressionDataOf (sortByDate rt dailyRevenue))))"
  "fr_trend (forecastRevenue rt dailyRevenue n) =
     (if dailyRevenue = [] then ''stable''
      else determineTrend
             (rg_slope (calculateLinearRegression (regressionDataOf (sortByDate rt dailyRevenue))))
             (rg_r2 (calculateLinearRegression (regressionDataOf (sortByDate rt dailyRevenue)))))"
  unfolding forecastRevenue_def Let_def by simp_all

lemma forecast_single:
  "fr_slope (forecastRevenue rt [day] n) = 0"
  "fr_intercept (forecastRevenue rt [day] n) = toFixed 4 (dr_revenue day)"
  "fr_r2 (forecastRevenue rt [day] n) = 0"
  "fr_trend (forecastRevenue rt [day] n) = ''stable''"
proof -
  have r: "calculateLinearRegression (regressionDataOf (sortByDate rt [day])) =
      \<lparr>rg_slope = 0, rg_intercept = toFixed 4 (dr_revenue day), rg_r2 = 0\<rparr>"
    by (simp add: sortByDate_def js_sort_single regressionDataOf_def regression_single)
  show "fr_slope (forecastRevenue rt [day] n) = 0"
    "fr_intercept (forecastRevenue rt [day] n) = toFixed 4 (dr_revenue day)"
    "fr_r2 (forecastRevenue rt [day] n) = 0"
    "fr_trend (forecastRevenue rt [day] n) = ''stable''"
    unfolding forecast_fields r by (simp_all add: determineTrend_def)
qed

lemma example_days_sorted:
  "sortByDate utc_runtime example_days =
     [\<lparr>dr_date = ''2024-01-01'', dr_revenue = 100, dr_cost = 40, dr_profit = 60\<rparr>,
      \<lparr>dr_date = ''2024-01-02'', dr_revenue = 200, dr_cost = 80, dr_profit = 120\<rparr>,
      \<lparr>dr_date = ''2024-01-03'', dr_revenue = 100, dr_cost = 40, dr_profit = 60\<rparr>,
      \<lparr>dr_date = ''2024-01-04'', dr_revenue = 200, dr_cost = 80, dr_profit = 120\<rparr>]"
  by code_simp

lemma example_days_regression:
  "calculateLinearRegression (regressionDataOf (sortByDate utc_runtime example_days)) =
     \<lparr>rg_slope = 20, rg_intercept = 120, rg_r2 = 1 / 5\<rparr>"
  unfolding example_days_sorted
  by (simp add: regressionDataOf_def calculateLinearRegression_def Let_def toFixed_def
      power2_eq_square)

lemma regression_r2_rounds_fitted:
  "data \<noteq> [] \<Longrightarrow>
   rg_r2 (calculateLinearRegression data) = toFixed 4 (max 0 (fittedR2 data))"
  by (simp add: calculateLinearRegression_def fittedR2_def Let_def split: prod.splits)

lemma borderline_days_sorted:
  "sortByDate utc_runtime borderline_days = borderline_days"
  by code_simp

lemma borderline_points:
  "regressionDataOf borderline_days =
     [\<lparr>pt_x = 0, pt_y = 100\<rparr>, \<lparr>pt_x = 1, pt_y = 275\<rparr>, \<lparr>pt_x = 2, pt_y = 196\<rparr>]"
  by (simp add: regressionDataOf_def borderline_days_def)

lemma borderline_fitted:
  "fittedR2 [\<lparr>pt_x = 0, pt_y = 100\<rparr>, \<lparr>pt_x = 1, pt_y = 275\<rparr>, \<lparr>pt_x = 2, pt_y = 196\<rparr>]
     = 6912 / 23041"
  by (simp add: fittedR2_def Let_def power2_eq_square)

lemma borderline_regression:
  "calculateLinearRegression
     [\<lparr>pt_x = 0, pt_y = 100\<rparr>, \<lparr>pt_x = 1, pt_y = 275\<rparr>, \<lparr>pt_x = 2, pt_y = 196\<rparr>]
     = \<lparr>rg_slope = 48, rg_intercept = 1423333 / 10000, rg_r2 = 3 / 10\<rparr>"
  by (simp add: calculateLinearRegression_def Let_def power2_eq_square toFixed_def)

text \<open>
  C2 (as amended). The regression of no points has slope, intercept and r2 equal to 0.
  The regression of a single point has slope 0 and r2 0, and its intercept is the
  point's \<open>y\<close> (rounded to four decimals), not 0. For every series with fewer than 3
  points the residual standard error is 0.
\<close>

theorem regression_few_points:
  "calculateLinearRegression [] = \<lparr>rg_slope = 0, rg_intercept = 0, rg_r2 = 0\<rparr>
   \<and> calculateLinearRegression [p] =
       \<lparr>rg_slope = 0, rg_intercept = toFixed 4 (pt_y p), rg_r2 = 0\<rparr>
   \<and> (length data < 3 \<longrightarrow> calculateStandardError data slope intercept = 0)"
  using regression_none regression_single [of p] standard_error_few [of data slope intercept]
  by blast

text \<open>The theorem at the single point (0, 100) and at the two points (0, 100), (1, 300).\<close>

theorem regression_few_points_witness:
  "calculateLinearRegression [\<lparr>pt_x = 0, pt_y = 100\<rparr>] =
     \<lparr>rg_slope = 0, rg_intercept = toFixed 4 100, rg_r2 = 0\<rparr>
   \<and> calculateStandardError [\<lparr>pt_x = 0, pt_y = 100\<rparr>, \<lparr>pt_x = 1, pt_y = 300\<rparr>] 150 120 = 0"
  using regression_few_points
    [of "\<lparr>pt_x = 0, pt_y = 100\<rparr>" "[\<lparr>pt_x = 0, pt_y = 100\<rparr>, \<lparr>pt_x = 1, pt_y = 300\<rparr>]" 150 120]
  by simp

text \<open>
  The claim as stated fails at one point: the regression of the single point (0, 100),
  which is what \<open>forecastRevenue\<close> fits to a series of one day with revenue 100, has
  intercept 100.
\<close>

theorem regression_few_points_counterexample:
  "length [\<lparr>pt_x = 0, pt_y = 100\<rparr>] < 2
   \<and> rg_intercept (calculateLinearRegression [\<lparr>pt_x = 0, pt_y = 100\<rparr>]) = 100
   \<and> rg_intercept (calculateLinearRegression [\<lparr>pt_x = 0, pt_y = 100\<rparr>]) \<noteq> 0
   \<and> fr_intercept (forecastRevenue utc_runtime [example_day] 30) = 100"
  by (simp add: forecast_single regression_single toFixed_4_100 example_day_def)

text \<open>
  C5 (as amended). Whenever the r2 that \<open>forecastRevenue\<close> reports, which is the fitted
  r2 rounded to four decimals, is below 0.3, the trend it reports is \<^verbatim>\<open>stable\<close>, whatever
  the slope; this holds for every series, the non-empty ones included. A fitted r2 just
  below 0.3 that rounds to 0.3 does not count as below.
\<close>

theorem forecast_low_r2_stable:
  "fr_r2 (forecastRevenue rt dailyRevenue daysToForecast) < 0.3 \<Longrightarrow>
   fr_trend (forecastRevenue rt dailyRevenue daysToForecast) = ''stable''"
  unfolding forecast_fields by (simp add: determineTrend_def split: if_splits)

text \<open>
  The theorem at four days with revenues 100, 200, 100, 200: the fitted slope is 20 a
  day, r2 is 0.2.
\<close>

theorem forecast_low_r2_stable_witness:
  "example_days \<noteq> []
   \<and> fr_slope (forecastRevenue utc_runtime example_days 30) = 20
   \<and> fr_r2 (forecastRevenue utc_runtime example_days 30) < 0.3
   \<and> fr_trend (forecastRevenue utc_runtime example_days 30) = ''stable''"
proof -
  have ne: "example_days \<noteq> []" by (simp add: example_days_def)
  have s: "fr_slope (forecastRevenue utc_runtime example_days 30) = 20"
    unfolding forecast_fields example_days_regression using ne by simp
  have r: "fr_r2 (forecastRevenue utc_runtime example_days 30) < 0.3"
    unfolding forecast_fields example_days_regression using ne by simp
  show ?thesis using ne s r forecast_low_r2_stable [OF r] by blast
qed

text \<open>
  The claim as stated, on the fitted r2, fails: the three days with revenues 100, 275
  and 196 have a fitted r2 of 6912/23041, below 0.3, which is reported as 0.3, and with
  a slope of 48 a day the trend is \<^verbatim>\<open>increasing\<close>.
\<close>

theorem forecast_low_r2_stable_counterexample:
  "borderline_days \<noteq> []
   \<and> fittedR2 (regressionDataOf (sortByDate utc_runtime borderline_days)) = 6912 / 23041
   \<and> fittedR2 (regressionDataOf (sortByDate utc_runtime borderline_days)) < 0.3
   \<and> fr_r2 (forecastRevenue utc_runtime borderline_days 30) = 0.3
   \<and> fr_slope (forecastRevenue utc_runtime borderline_days 30) = 48
   \<and> fr_trend (forecastRevenue utc_runtime borderline_days 30) = ''increasing''"
proof -
  have ne: "borderline_days \<noteq> []" by (simp add: borderline_days_def)
  have f: "fittedR2 (regressionDataOf (sortByDate utc_runtime borderline_days)) = 6912 / 23041"
    unfolding borderline_days_sorted borderline_points borderline_fitted by simp
  have r: "fr_r2 (forecastRevenue utc_runtime borderline_days 30) = 0.3"
    "fr_slope (forecastRevenue utc_runtime borderline_days 30) = 48"
    "fr_trend (forecastRevenue utc_runtime borderline_days 30) = ''increasing''"
    unfolding forecast_fields borderline_days_sorted borderline_points borderline_regression
    using ne by (simp_all add: determineTrend_def)
  show ?thesis using ne f r by simp
qed

section \<open>The anomaly detector\<close>

lemma foldl_plus_real: "foldl (\<lambda>acc val. acc + val) a xs = a + sum_list xs"
  for a :: real
  by (induction xs arbitrary: a) auto

lemma length_js_insert: "length (js_insert cmp x xs) = Suc (length xs)"
  by (induction xs) auto

lemma length_js_sort: "length (js_sort cmp xs) = length xs"
  by (induction xs) (auto simp: js_sort_def length_js_insert)

lemma constant_mean:
  assumes "\<forall>v\<in>set vs. v = c" and "vs \<noteq> []"
  shows "calculateMean vs = c"
proof -
  have "vs = replicate (length vs) c"
    using assms(1) by (metis replicate_length_same)
  then have "sum_list vs = real (length vs) * c"
    by (metis sum_list_replicate)
  then show ?thesis using assms(2) by (simp add: calculateMean_def foldl_plus_real)
qed

lemma constant_stdDev:
  assumes "\<forall>v\<in>set vs. v = c"
  shows "calculateStandardDeviation vs c = 0"
proof -
  have "sum_list (map (\<lambda>val. (val - c) ^ 2) vs) = 0"
    using assms by (induction vs) auto
  then show ?thesis by (simp add: calculateStandardDeviation_def Let_def foldl_plus_real)
qed

lemma flat_day_anomaly:
  "anomalyOfDay rt mean 0 threshold day = None \<longleftrightarrow> 0 < threshold"
  by (auto simp: anomalyOfDay_def calculateZScore_def Let_def)

lemma detect_constant:
  assumes c: "\<forall>day\<in>set dailyRevenue. dr_revenue day = c" and ne: "dailyRevenue \<noteq> []"
  shows "ad_anomalies (detectAnomalies rt dailyRevenue threshold) =
     js_sort (\<lambda>a b.
                (let severityDiff = severityOrder (an_severity b) - severityOrder (an_severity a)
                 in if severityDiff \<noteq> 0 then severityDiff
                    else \<bar>an_zScore b\<bar> - \<bar>an_zScore a\<bar>))
       (List.map_filter (anomalyOfDay rt c 0 threshold) dailyRevenue)"
proof -
  have m: "calculateMean (map dr_revenue dailyRevenue) = c"
    using c ne by (intro constant_mean) auto
  have s: "calculateStandardDeviation (map dr_revenue dailyRevenue) c = 0"
    using c by (intro constant_stdDev) auto
  show ?thesis using ne by (simp add: detectAnomalies_def Let_def m s)
qed

text \<open>
  C3 (as amended). For every daily revenue series in which all days have the same
  revenue \<open>c\<close>, a whole number with \<open>n \<cdot> |c| \<le> 2\<^sup>5\<^sup>3\<close> for the \<open>n\<close> days of the series, and
  every threshold greater than 0, \<open>detectAnomalies\<close> returns an empty list of anomalies:
  the standard deviation is 0, which makes every z-score 0. The bound keeps the sum and
  the mean of the series exact in double precision as well, where the sum of other
  constant series (ten days of 19.99) can be off in the last bit; such series are left
  out here.
\<close>

theorem constant_series_no_anomalies:
  assumes c: "\<forall>day\<in>set dailyRevenue. dr_revenue day = c"
    and whole: "c \<in> \<int>"
    and bound: "real (length dailyRevenue) * \<bar>c\<bar> \<le> 2 ^ 53"
    and t: "0 < threshold"
  shows "ad_anomalies (detectAnomalies rt dailyRevenue threshold) = []"
proof (cases "dailyRevenue = []")
  case True
  then show ?thesis by (simp add: detectAnomalies_def)
next
  case False
  have "List.map_filter (anomalyOfDay rt c 0 threshold) dailyRevenue = []"
    using t by (simp add: map_filter_def flat_day_anomaly)
  then show ?thesis unfolding detect_constant [OF c False] by (simp add: js_sort_def)
qed

text \<open>The theorem at three days with revenue 100 each and the default threshold 2.\<close>

theorem constant_series_no_anomalies_witness:
  "ad_anomalies (detectAnomalies utc_runtime flat_days 2) = []"
proof -
  have c: "\<forall>day\<in>set flat_days. dr_revenue day = 100" by (simp add: flat_days_def)
  have b: "real (length flat_days) * \<bar>100\<bar> \<le> 2 ^ 53" by (simp add: flat_days_def)
  show ?thesis using constant_series_no_anomalies [OF c _ b, of 2 utc_runtime] by simp
qed

lemma detect_constant_nonpositive:
  assumes c: "\<forall>day\<in>set dailyRevenue. dr_revenue day = c" and t: "threshold \<le> 0"
  shows "length (ad_anomalies (detectAnomalies rt dailyRevenue threshold)) = length dailyRevenue"
proof (cases "dailyRevenue = []")
  case True
  then show ?thesis by (simp add: detectAnomalies_def)
next
  case False
  have "\<forall>day\<in>set dailyRevenue. anomalyOfDay rt c 0 threshold day \<noteq> None"
    using t by (simp add: flat_day_anomaly)
  then have "length (List.map_filter (anomalyOfDay rt c 0 threshold) dailyRevenue) = length dailyRevenue"
    by (induction dailyRevenue) (auto simp: map_filter_def)
  then show ?thesis unfolding detect_constant [OF c False] by (simp add: length_js_sort)
qed

text \<open>
  The claim as stated fails for a threshold of 0: every z-score is 0, and 0 reaches the
  threshold, so each of the three days with revenue 100 is reported as an anomaly. The
  sum 300 and the mean 100 are exact in double precision.
\<close>

theorem constant_series_no_anomalies_counterexample:
  "map dr_revenue flat_days = [100, 100, 100]
   \<and> length (ad_anomalies (detectAnomalies utc_runtime flat_days 0)) = 3
   \<and> ad_anomalies (detectAnomalies utc_runtime flat_days 0) \<noteq> []"
proof -
  have c: "\<forall>day\<in>set flat_days. dr_revenue day = 100" by (simp add: flat_days_def)
  have m: "map dr_revenue flat_days = [100, 100, 100]" by (simp add: flat_days_def)
  have "length (ad_anomalies (detectAnomalies utc_runtime flat_days 0)) = length flat_days"
    using detect_constant_nonpositive [OF c, of 0 utc_runtime] by simp
  then have l: "length (ad_anomalies (detectAnomalies utc_runtime flat_days 0)) = 3"
    by (simp add: flat_days_def)
  then have "ad_anomalies (detectAnomalies utc_runtime flat_days 0) \<noteq> []" by auto
  then show ?thesis using m l by blast
qed

section \<open>The fallback insights\<close>

lemma insight_blocks_short:
  "length (concentrationInsight rt m) \<le> 1"
  "length (marginInsight rt m) \<le> 1"
  "length (growthInsight rt m) \<le> 1"
  "length (anomalyInsight rt m) \<le> 1"
  "length (healthInsight rt m) \<le> 1"
  by (simp_all add: concentrationInsight_def marginInsight_def growthInsight_def
      anomalyInsight_def healthInsight_def)

lemma fallback_insights:
  "ir_insights (generateFallbackInsights rt now m) =
     concentrationInsight rt m @ marginInsight rt m @ growthInsight rt m @
     anomalyInsight rt m @ healthInsight rt m"
proof -
  have "length (concentrationInsight rt m @ marginInsight rt m @ growthInsight rt m @
     anomalyInsight rt m @ healthInsight rt m) \<le> 6"
    using insight_blocks_short(1) [of rt m] insight_blocks_short(2) [of rt m]
      insight_blocks_short(3) [of rt m] insight_blocks_short(4) [of rt m]
      insight_blocks_short(5) [of rt m]
    by simp
  then show ?thesis by (simp add: generateFallbackInsights_def Let_def)
qed

lemma margin_titles_elsewhere:
  "filter (\<lambda>i. bi_title i = ''Low Profit Margin Alert'' \<or> bi_title i = ''Strong Profit Margins'')
     (concentrationInsight rt m) = []"
  "filter (\<lambda>i. bi_title i = ''Low Profit Margin Alert'' \<or> bi_title i = ''Strong Profit Margins'')
     (growthInsight rt m) = []"
  "filter (\<lambda>i. bi_title i = ''Low Profit Margin Alert'' \<or> bi_title i = ''Strong Profit Margins'')
     (anomalyInsight rt m) = []"
  "filter (\<lambda>i. bi_title i = ''Low Profit Margin Alert'' \<or> bi_title i = ''Strong Profit Margins'')
     (healthInsight rt m) = []"
  by (simp_all add: concentrationInsight_def growthInsight_def anomalyInsight_def healthInsight_def)

lemma margin_titles_margin:
  "map (\<lambda>i. (bi_category i, bi_priority i, bi_title i))
     (filter (\<lambda>i. bi_title i = ''Low Profit Margin Alert'' \<or> bi_title i = ''Strong Profit Margins'')
        (marginInsight rt m)) =
   (if mi_profitMargin m < 0.15 then [(Warning, High, ''Low Profit Margin Alert'')]
    else if mi_profitMargin m > 0.3 then [(Profitability, Medium, ''Strong Profit Margins'')]
    else [])"
  by (simp add: marginInsight_def)

text \<open>
  C9. The margin insights are the two that the margin block of \<open>generateFallbackInsights\<close>
  can push, told apart by their titles. For every metrics value the returned list holds
  exactly one of them, the high-priority \<open>Warning\<close>, when the profit margin is below 0.15;
  exactly one, the medium-priority \<open>Profitability\<close> insight, when the margin is above
  0.30; and none when the margin lies in [0.15, 0.30].
\<close>

theorem fallback_margin_insight:
  "(mi_profitMargin metrics < 0.15 \<longrightarrow>
      map (\<lambda>i. (bi_category i, bi_priority i, bi_title i))
        (filter (\<lambda>i. bi_title i = ''Low Profit Margin Alert'' \<or> bi_title i = ''Strong Profit Margins'')
           (ir_insights (generateFallbackInsights rt now metrics)))
      = [(Warning, High, ''Low Profit Margin Alert'')])
   \<and> (mi_profitMargin metrics > 0.3 \<longrightarrow>
      map (\<lambda>i. (bi_category i, bi_priority i, bi_title i))
        (filter (\<lambda>i. bi_title i = ''Low Profit Margin Alert'' \<or> bi_title i = ''Strong Profit Margins'')
           (ir_insights (generateFallbackInsights rt now metrics)))
      = [(Profitability, Medium, ''Strong Profit Margins'')])
   \<and> (0.15 \<le> mi_profitMargin metrics \<and> mi_profitMargin metrics \<le> 0.3 \<longrightarrow>
      filter (\<lambda>i. bi_title i = ''Low Profit Margin Alert'' \<or> bi_title i = ''Strong Profit Margins'')
        (ir_insights (generateFallbackInsights rt now metrics)) = [])"
proof -
  have "map (\<lambda>i. (bi_category i, bi_priority i, bi_title i))
     (filter (\<lambda>i. bi_title i = ''Low Profit Margin Alert'' \<or> bi_title i = ''Strong Profit Margins'')
        (ir_insights (generateFallbackInsights rt now metrics))) =
   (if mi_profitMargin metrics < 0.15 then [(Warning, High, ''Low Profit Margin Alert'')]
    else if mi_profitMargin metrics > 0.3 then [(Profitability, Medium, ''Strong Profit Margins'')]
    else [])"
    unfolding fallback_insights filter_append map_append margin_titles_elsewhere margin_titles_margin
    by simp
  then show ?thesis by (simp split: if_splits)
qed

text \<open>The theorem at margins of 0.1, 0.7485 and 0.2.\<close>

theorem fallback_margin_insight_witness:
  "map (\<lambda>i. (bi_category i, bi_priority i, bi_title i))
     (filter (\<lambda>i. bi_title i = ''Low Profit Margin Alert'' \<or> bi_title i = ''Strong Profit Margins'')
        (ir_insights (generateFallbackInsights utc_runtime 1704067200000
           (example_metrics\<lparr>mi_profitMargin := 0.1\<rparr>))))
     = [(Warning, High, ''Low Profit Margin Alert'')]
   \<and> map (\<lambda>i. (bi_category i, bi_priority i, bi_title i))
     (filter (\<lambda>i. bi_title i = ''Low Profit Margin Alert'' \<or> bi_title i = ''Strong Profit Margins'')
        (ir_insights (generateFallbackInsights utc_runtime 1704067200000 example_metrics)))
     = [(Profitability, Medium, ''Strong Profit Margins'')]
   \<and> filter (\<lambda>i. bi_title i = ''Low Profit Margin Alert'' \<or> bi_title i = ''Strong Profit Margins'')
        (ir_insights (generateFallbackInsights utc_runtime 1704067200000
           (example_metrics\<lparr>mi_profitMargin := 0.2\<rparr>))) = []"
proof -
  have a: "mi_profitMargin (example_metrics\<lparr>mi_profitMargin := 0.1\<rparr>) < 0.15" by simp
  have b: "mi_profitMargin example_metrics > 0.3" by (simp add: example_metrics_def)
  have c: "0.15 \<le> mi_profitMargin (example_metrics\<lparr>mi_profitMargin := 0.2\<rparr>)
      \<and> mi_profitMargin (example_metrics\<lparr>mi_profitMargin := 0.2\<rparr>) \<le> 0.3" by simp
  show ?thesis
    using a b c
      fallback_margin_insight [of "example_metrics\<lparr>mi_profitMargin := 0.1\<rparr>" utc_runtime 1704067200000]
      fallback_margin_insight [of example_metrics utc_runtime 1704067200000]
      fallback_margin_insight [of "example_metrics\<lparr>mi_profitMargin := 0.2\<rparr>" utc_runtime 1704067200000]
    by blast
qed

lemma determineTrend_values:
  "determineTrend slope r2 = ''increasing'' \<or> determineTrend slope r2 = ''decreasing''
   \<or> determineTrend slope r2 = ''stable''"
  by (simp add: determineTrend_def)

lemma forecast_trend_values:
  "fr_trend (forecastRevenue rt dailyRevenue n) = ''increasing''
   \<or> fr_trend (forecastRevenue rt dailyRevenue n) = ''decreasing''
   \<or> fr_trend (forecastRevenue rt dailyRevenue n) = ''stable''"
  unfolding forecastRevenue_def Let_def using determineTrend_values by simp

lemma prepare_recentTrend:
  "ta_recentTrend (mi_trendAnalysis (prepareMetricsForInsight analytics forecast anomalies)) =
     fr_trend forecast"
  by (simp add: prepareMetricsForInsight_def Let_def)

lemma growth_titles_elsewhere:
  "filter (\<lambda>i. bi_title i = ''Positive Growth Trajectory'' \<or> bi_title i = ''Declining Revenue Trend'')
     (concentrationInsight rt m) = []"
  "filter (\<lambda>i. bi_title i = ''Positive Growth Trajectory'' \<or> bi_title i = ''Declining Revenue Trend'')
     (marginInsight rt m) = []"
  "filter (\<lambda>i. bi_title i = ''Positive Growth Trajectory'' \<or> bi_title i = ''Declining Revenue Trend'')
     (anomalyInsight rt m) = []"
  "filter (\<lambda>i. bi_title i = ''Positive Growth Trajectory'' \<or> bi_title i = ''Declining Revenue Trend'')
     (healthInsight rt m) = []"
  by (simp_all add: concentrationInsight_def marginInsight_def anomalyInsight_def healthInsight_def)

lemma growth_block_forecast:
  "growthInsight rt (prepareMetricsForInsight analytics (forecastRevenue rt' dailyRevenue n) anomalies) = []"
proof -
  have "fr_trend (forecastRevenue rt' dailyRevenue n) \<noteq> ''up''"
    "fr_trend (forecastRevenue rt' dailyRevenue n) \<noteq> ''down''"
    using forecast_trend_values [of rt' dailyRevenue n] by auto
  then show ?thesis by (simp add: growthInsight_def prepare_recentTrend)
qed

text \<open>
  C10. On the metrics that \<open>prepareMetricsForInsight\<close> builds from a result of
  \<open>forecastRevenue\<close>, the fallback emits neither of the two trend insights: the trend
  copied into \<open>recentTrend\<close> is one of \<^verbatim>\<open>increasing\<close>, \<^verbatim>\<open>decreasing\<close>, \<^verbatim>\<open>stable\<close>,
  never \<^verbatim>\<open>up\<close> or \<^verbatim>\<open>down\<close>.
\<close>

theorem fallback_trend_insights_dead:
  "filter (\<lambda>i. bi_title i = ''Positive Growth Trajectory'' \<or> bi_title i = ''Declining Revenue Trend'')
     (ir_insights (generateFallbackInsights rt now
        (prepareMetricsForInsight analytics (forecastRevenue rt' dailyRevenue n) anomalies))) = []
   \<and> ta_recentTrend (mi_trendAnalysis
        (prepareMetricsForInsight analytics (forecastRevenue rt' dailyRevenue n) anomalies)) \<noteq> ''up''
   \<and> ta_recentTrend (mi_trendAnalysis
        (prepareMetricsForInsight analytics (forecastRevenue rt' dailyRevenue n) anomalies)) \<noteq> ''down''"
proof -
  have "fr_trend (forecastRevenue rt' dailyRevenue n) \<noteq> ''up''"
    "fr_trend (forecastRevenue rt' dailyRevenue n) \<noteq> ''down''"
    using forecast_trend_values [of rt' dailyRevenue n] by auto
  then show ?thesis
    unfolding fallback_insights filter_append growth_titles_elsewhere growth_block_forecast
      prepare_recentTrend
    by simp
qed

section \<open>The rollups partition the totals\<close>
























end
